theory Spec2Isabelle
  imports Complex_Main
begin

section \<open>Data model\<close>

text \<open>
  The solver of \<^verbatim>\<open>qm_2019_sss_6/scf.py\<close>. A two-dimensional ndarray is a list of rows, a
  rank-3 ndarray a list of matrices; Python floats are idealised as reals, Python ints are
  \<open>int\<close>. An exception is a value \<open>Inl e\<close> of the result type.
\<close>

type_synonym matrix = "real list list"
type_synonym tensor3 = "real list list list"

datatype error = UnboundLocalError | ZeroDivisionError | ValueError | LinAlgError

text \<open>
  The fields of class \<^verbatim>\<open>scf\<close>. The constructor sets the first eight;
  \<^verbatim>\<open>fock_matrix\<close> is first assigned by \<^verbatim>\<open>initialize\<close>, \<^verbatim>\<open>energy_scf\<close> and
  \<^verbatim>\<open>total_energy\<close> by \<^verbatim>\<open>kernel\<close>, so they are absent (\<open>None\<close>) before.
\<close>

record scf =
  hamiltonian_matrix :: matrix
  interaction_matrix :: matrix
  density_matrix :: matrix
  chi_tensor :: tensor3
  energy_ion :: real
  ionic_charge :: int
  converged :: bool
  orbitals_per_atom :: int
  fock_matrix :: "matrix option"
  energy_scf :: "real option"
  total_energy :: "real option"

definition init :: "matrix \<Rightarrow> matrix \<Rightarrow> matrix \<Rightarrow> tensor3 \<Rightarrow> real \<Rightarrow> int \<Rightarrow> int \<Rightarrow> scf" where
  "init H M D chi E_ion Q K =
     \<lparr>hamiltonian_matrix = H, interaction_matrix = M, density_matrix = D, chi_tensor = chi,
      energy_ion = E_ion, ionic_charge = Q, converged = False, orbitals_per_atom = K,
      fock_matrix = None, energy_scf = None, total_energy = None\<rparr>"

section \<open>Array primitives\<close>

text \<open>
  The shape of a matrix is (rows, columns). Arithmetic between two arrays is elementwise
  and raises when the shapes differ; the arrays of the solver are matrices of one common
  shape, and numpy's broadcasting of axes of length one is outside this model.
\<close>

definition shape :: "matrix \<Rightarrow> nat \<times> nat" where
  "shape A = (length A, case A of [] \<Rightarrow> 0 | r # _ \<Rightarrow> length r)"

definition shape3 :: "tensor3 \<Rightarrow> nat \<times> nat \<times> nat" where
  "shape3 T = (length T, case T of [] \<Rightarrow> (0, 0) | A # _ \<Rightarrow> shape A)"

definition elementwise :: "(real \<Rightarrow> real \<Rightarrow> real) \<Rightarrow> matrix \<Rightarrow> matrix \<Rightarrow> matrix" where
  "elementwise f A B = map2 (map2 f) A B"

definition nd_add :: "matrix \<Rightarrow> matrix \<Rightarrow> error + matrix" where
  "nd_add A B = (if shape A = shape B then Inr (elementwise (+) A B) else Inl ValueError)"

definition nd_sub :: "matrix \<Rightarrow> matrix \<Rightarrow> error + matrix" where
  "nd_sub A B = (if shape A = shape B then Inr (elementwise (-) A B) else Inl ValueError)"

definition scalar_mul :: "real \<Rightarrow> matrix \<Rightarrow> matrix" where
  "scalar_mul c A = map (map ((*) c)) A"

text \<open>\<^verbatim>\<open>np.linalg.norm\<close> of a matrix: the Frobenius norm.\<close>

definition linalg_norm :: "matrix \<Rightarrow> real" where
  "linalg_norm A = sqrt (\<Sum>r\<leftarrow>A. \<Sum>x\<leftarrow>r. x * x)"

text \<open>The Python slice \<^verbatim>\<open>xs[:k]\<close>: a negative \<open>k\<close> counts from the end.\<close>

definition slice_to :: "int \<Rightarrow> 'a list \<Rightarrow> 'a list" where
  "slice_to k xs = (if 0 \<le> k then take (nat k) xs else take (length xs - nat (- k)) xs)"

text \<open>\<^verbatim>\<open>A @ B.T\<close>: entry (i, j) is the dot product of row i of A and row j of B.\<close>

definition dot :: "real list \<Rightarrow> real list \<Rightarrow> real" where
  "dot u v = (\<Sum>(x, y)\<leftarrow>zip u v. x * y)"

definition matmul_T :: "matrix \<Rightarrow> matrix \<Rightarrow> matrix" where
  "matmul_T A B = map (\<lambda>u. map (\<lambda>v. dot u v) B) A"

definition trace :: "matrix \<Rightarrow> real" where
  "trace A = (\<Sum>i\<leftarrow>[0..<length A]. A ! i ! i)"

text \<open>\<^verbatim>\<open>np.einsum('pq,pq', A, B)\<close>: the full contraction of two matrices of one shape.\<close>

definition einsum_pq_pq :: "matrix \<Rightarrow> matrix \<Rightarrow> error + real" where
  "einsum_pq_pq A B =
     (if shape A = shape B
      then Inr (\<Sum>p\<leftarrow>[0..<fst (shape A)]. \<Sum>q\<leftarrow>[0..<snd (shape A)]. A ! p ! q * B ! p ! q)
      else Inl ValueError)"

text \<open>
  \<^verbatim>\<open>np.einsum('pqt,rsu,tu,rs', X, Y, M, D)\<close>: the indices t, r, s, u occur twice and are
  summed, the result has the indices p, q.
\<close>

definition einsum_pqt_rsu_tu_rs :: "tensor3 \<Rightarrow> tensor3 \<Rightarrow> matrix \<Rightarrow> matrix \<Rightarrow> error + matrix" where
  "einsum_pqt_rsu_tu_rs X Y M D =
     (case (shape3 X, shape3 Y) of ((np, nq, nt), (nr, ns, nu)) \<Rightarrow>
        if shape M = (nt, nu) \<and> shape D = (nr, ns)
        then Inr (map (\<lambda>p. map (\<lambda>q.
               (\<Sum>t\<leftarrow>[0..<nt]. \<Sum>r\<leftarrow>[0..<nr]. \<Sum>s\<leftarrow>[0..<ns]. \<Sum>u\<leftarrow>[0..<nu].
                  X ! p ! q ! t * Y ! r ! s ! u * M ! t ! u * D ! r ! s)) [0..<nq]) [0..<np])
        else Inl ValueError)"

text \<open>
  \<^verbatim>\<open>np.einsum('rqt,psu,tu,rs', X, Y, M, D)\<close>: r, t, s, u are summed, the result has the
  indices p, q in alphabetical order.
\<close>

definition einsum_rqt_psu_tu_rs :: "tensor3 \<Rightarrow> tensor3 \<Rightarrow> matrix \<Rightarrow> matrix \<Rightarrow> error + matrix" where
  "einsum_rqt_psu_tu_rs X Y M D =
     (case (shape3 X, shape3 Y) of ((nr, nq, nt), (np, ns, nu)) \<Rightarrow>
        if shape M = (nt, nu) \<and> shape D = (nr, ns)
        then Inr (map (\<lambda>p. map (\<lambda>q.
               (\<Sum>t\<leftarrow>[0..<nt]. \<Sum>r\<leftarrow>[0..<nr]. \<Sum>s\<leftarrow>[0..<ns]. \<Sum>u\<leftarrow>[0..<nu].
                  X ! r ! q ! t * Y ! p ! s ! u * M ! t ! u * D ! r ! s)) [0..<nq]) [0..<np])
        else Inl ValueError)"

section \<open>The solver\<close>

text \<open>
  Two callees are not part of \<^verbatim>\<open>scf.py\<close> and are parameters of the model: \<open>ff\<close> is
  \<^verbatim>\<open>fock_fast.fast_fock_matrix\<close> (the compiled module), \<open>eigh\<close> is \<^verbatim>\<open>np.linalg.eigh\<close>.
  Either may raise.
\<close>

type_synonym fock_builder = "matrix \<Rightarrow> matrix \<Rightarrow> matrix \<Rightarrow> real \<Rightarrow> error + matrix"
type_synonym eigen_solver = "matrix \<Rightarrow> error + (real list \<times> matrix)"

definition dipole :: real where
  "dipole = 2781629275106456 / 1000000000000000"

definition fast_fock_matrix :: "fock_builder \<Rightarrow> matrix \<Rightarrow> matrix \<Rightarrow> matrix \<Rightarrow> error + matrix" where
  "fast_fock_matrix ff H M D = ff H M D dipole"

text \<open>
  \<^verbatim>\<open>calculate_fock_matrix\<close>: the four array parameters are accepted and every array is read
  from the fields of \<open>s\<close>.
\<close>

definition calculate_fock_matrix :: "scf \<Rightarrow> matrix \<Rightarrow> matrix \<Rightarrow> matrix \<Rightarrow> tensor3 \<Rightarrow> error + matrix" where
  "calculate_fock_matrix s H M D chi =
     (case einsum_pqt_rsu_tu_rs (chi_tensor s) (chi_tensor s) (interaction_matrix s) (density_matrix s) of
        Inl e \<Rightarrow> Inl e
      | Inr J \<Rightarrow>
         (case nd_add (hamiltonian_matrix s) (scalar_mul 2 J) of
            Inl e \<Rightarrow> Inl e
          | Inr F1 \<Rightarrow>
             (case einsum_rqt_psu_tu_rs (chi_tensor s) (chi_tensor s) (interaction_matrix s) (density_matrix s) of
                Inl e \<Rightarrow> Inl e
              | Inr X \<Rightarrow> nd_sub F1 X)))"

text \<open>The local \<^verbatim>\<open>num_occ\<close> of \<^verbatim>\<open>calculate_density_matrix\<close>; \<open>n\<close> is \<^verbatim>\<open>np.size(fock_matrix, 0)\<close>.\<close>

definition num_occ :: "int \<Rightarrow> int \<Rightarrow> int \<Rightarrow> error + int" where
  "num_occ Q n K = (if K = 0 then Inl ZeroDivisionError else Inr (((Q div 2) * n) div K))"

definition calculate_density_matrix :: "eigen_solver \<Rightarrow> scf \<Rightarrow> matrix \<Rightarrow> error + matrix" where
  "calculate_density_matrix eigh s F =
     (case num_occ (ionic_charge s) (int (length F)) (orbitals_per_atom s) of
        Inl e \<Rightarrow> Inl e
      | Inr k \<Rightarrow>
         (case eigh F of
            Inl e \<Rightarrow> Inl e
          | Inr (orbital_energy, orbital_matrix) \<Rightarrow>
              (let occupied_matrix = map (slice_to k) orbital_matrix
               in Inr (matmul_T occupied_matrix occupied_matrix))))"

definition calculate_energy_scf :: "matrix \<Rightarrow> matrix \<Rightarrow> matrix \<Rightarrow> error + real" where
  "calculate_energy_scf H F D =
     (case nd_add H F of Inl e \<Rightarrow> Inl e | Inr HF \<Rightarrow> einsum_pq_pq HF D)"

definition warning_message :: string where
  "warning_message = ''WARNING: SCF cycle didn't converge''"

definition mix_density :: "real \<Rightarrow> matrix \<Rightarrow> matrix \<Rightarrow> error + matrix" where
  "mix_density mixing_fraction D old_D =
     nd_add (scalar_mul mixing_fraction D) (scalar_mul (1 - mixing_fraction) old_D)"

text \<open>
  The \<^verbatim>\<open>for\<close> loop of \<^verbatim>\<open>scf_cycle\<close> with the statements after it. The arguments are the
  number of iterations left, the local \<^verbatim>\<open>old_density_matrix\<close>, and the locals
  \<^verbatim>\<open>density_matrix\<close>, \<^verbatim>\<open>fock_matrix\<close> (\<open>None\<close> while unbound). The result is the solver
  after the call, the lines printed, and the value returned or the exception raised.
\<close>

fun scf_iterations ::
  "fock_builder \<Rightarrow> eigen_solver \<Rightarrow> scf \<Rightarrow> real \<Rightarrow> real \<Rightarrow> nat \<Rightarrow> matrix \<Rightarrow> (matrix \<times> matrix) option
     \<Rightarrow> scf \<times> string list \<times> (error + matrix \<times> matrix)" where
  "scf_iterations ff eigh s mixing_fraction convergence_tolerance 0 old_D locals =
     (s, [warning_message],
      case locals of None \<Rightarrow> Inl UnboundLocalError | Some (D, F) \<Rightarrow> Inr (D, F))"
| "scf_iterations ff eigh s mixing_fraction convergence_tolerance (Suc k) old_D locals =
     (case fast_fock_matrix ff (hamiltonian_matrix s) (interaction_matrix s) (density_matrix s) of
        Inl e \<Rightarrow> (s, [], Inl e)
      | Inr F \<Rightarrow>
         (case calculate_density_matrix eigh s F of
            Inl e \<Rightarrow> (s, [], Inl e)
          | Inr D \<Rightarrow>
             (case nd_sub old_D D of
                Inl e \<Rightarrow> (s, [], Inl e)
              | Inr diff \<Rightarrow>
                  if linalg_norm diff < convergence_tolerance
                  then (s\<lparr>converged := True\<rparr>, [], Inr (D, F))
                  else (case mix_density mixing_fraction D old_D of
                          Inl e \<Rightarrow> (s, [], Inl e)
                        | Inr old_D' \<Rightarrow>
                            scf_iterations ff eigh s mixing_fraction convergence_tolerance k
                              old_D' (Some (D, F))))))"

definition scf_cycle ::
  "fock_builder \<Rightarrow> eigen_solver \<Rightarrow> scf \<Rightarrow> int \<Rightarrow> real \<Rightarrow> real
     \<Rightarrow> scf \<times> string list \<times> (error + matrix \<times> matrix)" where
  "scf_cycle ff eigh s max_scf_iterations mixing_fraction convergence_tolerance =
     scf_iterations ff eigh s mixing_fraction convergence_tolerance (nat max_scf_iterations)
       (density_matrix s) None"

definition initialize :: "fock_builder \<Rightarrow> eigen_solver \<Rightarrow> scf \<Rightarrow> scf \<times> (error + unit)" where
  "initialize ff eigh s =
     (case fast_fock_matrix ff (hamiltonian_matrix s) (interaction_matrix s) (density_matrix s) of
        Inl e \<Rightarrow> (s, Inl e)
      | Inr F \<Rightarrow>
         (let s1 = s\<lparr>fock_matrix := Some F\<rparr>
          in case calculate_density_matrix eigh s1 F of
               Inl e \<Rightarrow> (s1, Inl e)
             | Inr D \<Rightarrow> (s1\<lparr>density_matrix := D\<rparr>, Inr ())))"

text \<open>\<^verbatim>\<open>kernel\<close> calls \<^verbatim>\<open>scf_cycle\<close> with its defaults 100, 0.25 and 1e-4.\<close>

definition kernel :: "fock_builder \<Rightarrow> eigen_solver \<Rightarrow> scf \<Rightarrow> scf \<times> string list \<times> (error + real)" where
  "kernel ff eigh s =
     (case initialize ff eigh s of
        (s1, Inl e) \<Rightarrow> (s1, [], Inl e)
      | (s1, Inr _) \<Rightarrow>
         (case scf_cycle ff eigh s1 100 (1 / 4) (1 / 10000) of
            (s2, out, Inl e) \<Rightarrow> (s2, out, Inl e)
          | (s2, out, Inr (D, F)) \<Rightarrow>
             (let s3 = s2\<lparr>density_matrix := D, fock_matrix := Some F\<rparr>
              in case calculate_energy_scf (hamiltonian_matrix s3) F D of
                   Inl e \<Rightarrow> (s3, out, Inl e)
                 | Inr E \<Rightarrow>
                    (let s4 = s3\<lparr>energy_scf := Some E\<rparr>;
                         s5 = s4\<lparr>total_energy := Some (energy_ion s4 + E)\<rparr>
                     in (s5, out, Inr (energy_ion s4 + E))))))"

section \<open>Notions used to state the properties\<close>

text \<open>A list of rows is an ndarray when every row has the length the shape gives.\<close>

definition rectangular :: "matrix \<Rightarrow> bool" where
  "rectangular A = list_all (\<lambda>r. length r = snd (shape A)) A"

text \<open>
  The local \<^verbatim>\<open>old_density_matrix\<close> at the start of iteration \<open>j\<close> (from 0) of a run of
  \<^verbatim>\<open>scf_cycle\<close> that starts from \<open>old_D\<close> and computes the density \<open>D\<close> in its
  iterations (lines 71-72 applied \<open>j\<close> times), and the residual of line 66 there.
\<close>

fun old_density_at :: "real \<Rightarrow> matrix \<Rightarrow> matrix \<Rightarrow> nat \<Rightarrow> matrix" where
  "old_density_at mixing_fraction D old_D 0 = old_D"
| "old_density_at mixing_fraction D old_D (Suc j) =
     old_density_at mixing_fraction D
       (elementwise (+) (scalar_mul mixing_fraction D) (scalar_mul (1 - mixing_fraction) old_D)) j"

definition residual_at :: "real \<Rightarrow> matrix \<Rightarrow> matrix \<Rightarrow> nat \<Rightarrow> real" where
  "residual_at mixing_fraction D old_D j =
     linalg_norm (elementwise (-) (old_density_at mixing_fraction D old_D j) D)"

text \<open>The two contractions of the reference path, entry (p, q).\<close>

definition coulomb :: "tensor3 \<Rightarrow> matrix \<Rightarrow> matrix \<Rightarrow> nat \<Rightarrow> nat \<Rightarrow> real" where
  "coulomb chi M D p q =
     (\<Sum>t\<leftarrow>[0..<length M]. \<Sum>r\<leftarrow>[0..<length D]. \<Sum>s\<leftarrow>[0..<length D]. \<Sum>u\<leftarrow>[0..<length M].
        chi ! p ! q ! t * chi ! r ! s ! u * M ! t ! u * D ! r ! s)"

definition exchange :: "tensor3 \<Rightarrow> matrix \<Rightarrow> matrix \<Rightarrow> nat \<Rightarrow> nat \<Rightarrow> real" where
  "exchange chi M D p q =
     (\<Sum>t\<leftarrow>[0..<length M]. \<Sum>r\<leftarrow>[0..<length D]. \<Sum>s\<leftarrow>[0..<length D]. \<Sum>u\<leftarrow>[0..<length M].
        chi ! r ! q ! t * chi ! p ! s ! u * M ! t ! u * D ! r ! s)"

text \<open>
  Modelled from the spec: \<^verbatim>\<open>fock_fast.fast_fock_matrix\<close>, the compiled module that
  \<^verbatim>\<open>scf.py\<close> imports as \<^verbatim>\<open>ff\<close>, is not among the sources. The spec requires of this
  collaborator that it is equivalent to the reference formula
  F = H + 2 Coulomb(chi, M, D) - Exchange(chi, M, D) on the arguments it is given, where
  \<open>chi\<close> is the coupling tensor that is consistent with the dipole constant.
\<close>

definition fock_fast_model :: "tensor3 \<Rightarrow> fock_builder" where
  "fock_fast_model chi H M D dipole_length =
     (case einsum_pqt_rsu_tu_rs chi chi M D of
        Inl e \<Rightarrow> Inl e
      | Inr J \<Rightarrow>
         (case nd_add H (scalar_mul 2 J) of
            Inl e \<Rightarrow> Inl e
          | Inr F1 \<Rightarrow>
             (case einsum_rqt_psu_tu_rs chi chi M D of
                Inl e \<Rightarrow> Inl e
              | Inr X \<Rightarrow> nd_sub F1 X)))"

text \<open>
  \<^verbatim>\<open>np.linalg.eigh\<close> on a diagonal matrix whose diagonal ascends: the eigenvalues are the
  diagonal and the eigenvectors the unit vectors. It stands for the library at the
  concrete inputs below; the density built from it does not depend on the signs of the
  eigenvectors.
\<close>

definition eigh_diagonal :: eigen_solver where
  "eigh_diagonal F =
     (let n = length F; d = map (\<lambda>i. F ! i ! i) [0..<n]
      in if F = map (\<lambda>i. map (\<lambda>j. if i = j then d ! i else 0) [0..<n]) [0..<n] \<and> sorted d
         then Inr (d, map (\<lambda>i. map (\<lambda>j. if i = j then 1 else 0) [0..<n]) [0..<n])
         else Inl LinAlgError)"

text \<open>
  A system of one atom with one orbital: H = [[0]], M = [[1]], D0 = [[0]], chi = [[[1]]],
  E_ion = 1, Q = 2, K = 1.
\<close>

definition one_orbital :: scf where
  "one_orbital = init [[0]] [[1]] [[0]] [[[1]]] 1 2 1"

section \<open>The loop of the SCF cycle\<close>

lemma shape_scalar_mul: "shape (scalar_mul c A) = shape A"
  by (cases A) (simp_all add: shape_def scalar_mul_def)

lemma shape_elementwise: "shape A = shape B \<Longrightarrow> shape (elementwise f A B) = shape B"
  by (cases A; cases B) (simp_all add: shape_def elementwise_def)

lemma mix_density_Inr:
  "shape old_D = shape D \<Longrightarrow>
   mix_density m D old_D = Inr (elementwise (+) (scalar_mul m D) (scalar_mul (1 - m) old_D))"
  by (simp add: mix_density_def nd_add_def shape_scalar_mul)

lemma shape_mixed:
  "shape old_D = shape D \<Longrightarrow>
   shape (elementwise (+) (scalar_mul m D) (scalar_mul (1 - m) old_D)) = shape D"
  by (simp add: shape_elementwise shape_scalar_mul)

lemma scf_iterations_frame:
  "fst (scf_iterations ff eigh s m tol k old_D locals) = s \<or>
   scf_iterations ff eigh s m tol k old_D locals
     = (s\<lparr>converged := True\<rparr>, [], snd (snd (scf_iterations ff eigh s m tol k old_D locals))) \<and>
   (\<exists>p. snd (snd (scf_iterations ff eigh s m tol k old_D locals)) = Inr p)"
  by (induction k arbitrary: old_D locals) (auto split: sum.splits)

lemma scf_iterations_step:
  assumes "fast_fock_matrix ff (hamiltonian_matrix s) (interaction_matrix s) (density_matrix s) = Inr F"
    and "calculate_density_matrix eigh s F = Inr D"
    and "shape old_D = shape D"
  shows "scf_iterations ff eigh s m tol (Suc k) old_D locals =
     (if linalg_norm (elementwise (-) old_D D) < tol then (s\<lparr>converged := True\<rparr>, [], Inr (D, F))
      else scf_iterations ff eigh s m tol k
             (elementwise (+) (scalar_mul m D) (scalar_mul (1 - m) old_D)) (Some (D, F)))"
  using assms by (simp add: nd_sub_def mix_density_Inr)

lemma scf_iterations_converges_at:
  assumes "fast_fock_matrix ff (hamiltonian_matrix s) (interaction_matrix s) (density_matrix s) = Inr F"
    and "calculate_density_matrix eigh s F = Inr D"
  shows "shape old_D = shape D \<Longrightarrow> i < k \<Longrightarrow>
     (\<forall>j<i. \<not> residual_at m D old_D j < tol) \<Longrightarrow> residual_at m D old_D i < tol \<Longrightarrow>
     scf_iterations ff eigh s m tol k old_D locals = (s\<lparr>converged := True\<rparr>, [], Inr (D, F))"
proof (induction i arbitrary: k old_D locals)
  case 0
  then obtain k' where k: "k = Suc k'" by (cases k) auto
  from 0 show ?case unfolding k
    by (simp add: scf_iterations_step [OF assms] residual_at_def del: scf_iterations.simps)
next
  case (Suc i)
  then obtain k' where k: "k = Suc k'" by (cases k) auto
  let ?old = "elementwise (+) (scalar_mul m D) (scalar_mul (1 - m) old_D)"
  have r0: "\<not> residual_at m D old_D 0 < tol" using Suc.prems(3) by blast
  have sh: "shape ?old = shape D" using Suc.prems(1) by (rule shape_mixed)
  have shift: "residual_at m D ?old j = residual_at m D old_D (Suc j)" for j
    by (simp add: residual_at_def)
  have "scf_iterations ff eigh s m tol k' ?old (Some (D, F)) = (s\<lparr>converged := True\<rparr>, [], Inr (D, F))"
  proof (rule Suc.IH [OF sh])
    show "i < k'" using Suc.prems(2) k by simp
    show "\<forall>j<i. \<not> residual_at m D ?old j < tol" using Suc.prems(3) by (auto simp: shift)
    show "residual_at m D ?old i < tol" using Suc.prems(4) by (simp add: shift)
  qed
  with r0 Suc.prems(1) show ?case unfolding k
    by (simp add: scf_iterations_step [OF assms] residual_at_def del: scf_iterations.simps)
qed

lemma scf_iterations_exhausted:
  assumes "fast_fock_matrix ff (hamiltonian_matrix s) (interaction_matrix s) (density_matrix s) = Inr F"
    and "calculate_density_matrix eigh s F = Inr D"
  shows "shape old_D = shape D \<Longrightarrow> (\<forall>j<k. \<not> residual_at m D old_D j < tol) \<Longrightarrow>
     k = 0 \<longrightarrow> locals = Some (D, F) \<Longrightarrow>
     scf_iterations ff eigh s m tol k old_D locals = (s, [warning_message], Inr (D, F))"
proof (induction k arbitrary: old_D locals)
  case 0
  then show ?case by simp
next
  case (Suc k)
  let ?old = "elementwise (+) (scalar_mul m D) (scalar_mul (1 - m) old_D)"
  have r0: "\<not> residual_at m D old_D 0 < tol" using Suc.prems(2) by blast
  have sh: "shape ?old = shape D" using Suc.prems(1) by (rule shape_mixed)
  have shift: "residual_at m D ?old j = residual_at m D old_D (Suc j)" for j
    by (simp add: residual_at_def)
  have "scf_iterations ff eigh s m tol k ?old (Some (D, F)) = (s, [warning_message], Inr (D, F))"
  proof (rule Suc.IH [OF sh])
    show "\<forall>j<k. \<not> residual_at m D ?old j < tol" using Suc.prems(2) by (auto simp: shift)
    show "k = 0 \<longrightarrow> Some (D, F) = Some (D, F)" by simp
  qed
  with r0 Suc.prems(1) show ?case
    by (simp add: scf_iterations_step [OF assms] residual_at_def del: scf_iterations.simps)
qed

lemma scf_iterations_returns:
  assumes "fast_fock_matrix ff (hamiltonian_matrix s) (interaction_matrix s) (density_matrix s) = Inr F"
    and "calculate_density_matrix eigh s F = Inr D"
  shows "shape old_D = shape D \<Longrightarrow> k = 0 \<longrightarrow> locals = Some (D, F) \<Longrightarrow>
     snd (snd (scf_iterations ff eigh s m tol k old_D locals)) = Inr (D, F)"
proof (induction k arbitrary: old_D locals)
  case 0
  then show ?case by simp
next
  case (Suc k)
  then show ?case
    by (simp add: scf_iterations_step [OF assms] shape_mixed del: scf_iterations.simps)
qed

lemma scf_iterations_Inr_source:
  "snd (snd (scf_iterations ff eigh s m tol k old_D locals)) = Inr (D, F) \<Longrightarrow>
   locals = Some (D, F) \<or>
   (fast_fock_matrix ff (hamiltonian_matrix s) (interaction_matrix s) (density_matrix s) = Inr F \<and>
    calculate_density_matrix eigh s F = Inr D)"
  by (induction k arbitrary: old_D locals) (auto split: sum.splits option.splits if_splits)

lemma linalg_norm_1x1: "linalg_norm [[x]] = \<bar>x\<bar>"
  by (simp add: linalg_norm_def)

lemma fock_fast_model_1x1:
  "fock_fast_model [[[c]]] [[h]] [[m]] [[d]] dip = Inr [[h + 2 * (c * c * m * d) - c * c * m * d]]"
  by (simp add: fock_fast_model_def einsum_pqt_rsu_tu_rs_def einsum_rqt_psu_tu_rs_def
      shape3_def shape_def nd_add_def nd_sub_def scalar_mul_def elementwise_def)

lemma eigh_diagonal_1x1: "eigh_diagonal [[a]] = Inr ([a], [[1]])"
  by (simp add: eigh_diagonal_def Let_def)

lemma one_orbital_fock:
  "fast_fock_matrix (fock_fast_model [[[1]]]) (hamiltonian_matrix one_orbital)
     (interaction_matrix one_orbital) (density_matrix one_orbital) = Inr [[0]]"
  by (simp add: fast_fock_matrix_def one_orbital_def init_def fock_fast_model_1x1)

lemma one_orbital_density:
  "calculate_density_matrix eigh_diagonal one_orbital [[f]] = Inr [[1]]"
  by (simp add: calculate_density_matrix_def one_orbital_def init_def num_occ_def
      eigh_diagonal_1x1 slice_to_def matmul_T_def dot_def)

lemma elementwise_1x1: "elementwise f [[a]] [[b]] = [[f a b]]"
  by (simp add: elementwise_def)

lemma scalar_mul_1x1: "scalar_mul c [[a]] = [[c * a]]"
  by (simp add: scalar_mul_def)

lemma shape_1x1: "shape [[a]] = (1, 1)"
  by (simp add: shape_def)

lemma old_density_at_1x1:
  "old_density_at m [[d]] [[x]] j = [[d + (x - d) * (1 - m) ^ j]]"
proof (induction j arbitrary: x)
  case 0
  then show ?case by simp
next
  case (Suc j)
  have "m * d + (1 - m) * x - d = (x - d) * (1 - m)" by (simp add: algebra_simps)
  then show ?case by (simp add: elementwise_1x1 scalar_mul_1x1 Suc.IH algebra_simps)
qed

lemma residual_at_1x1: "residual_at m [[d]] [[x]] j = \<bar>(x - d) * (1 - m) ^ j\<bar>"
  by (simp add: residual_at_def old_density_at_1x1 elementwise_1x1 linalg_norm_1x1)

lemma one_orbital_fields:
  "density_matrix one_orbital = [[0]]" "hamiltonian_matrix one_orbital = [[0]]"
  "interaction_matrix one_orbital = [[1]]" "converged one_orbital = False"
  by (simp_all add: one_orbital_def init_def)

lemma all_less_2: "(\<forall>j<2::nat. P j) \<longleftrightarrow> P 0 \<and> P 1"
  by (auto simp: less_2_cases_iff)

lemma one_orbital_two_iterations:
  "scf_cycle (fock_fast_model [[[1]]]) eigh_diagonal one_orbital 2 (1 / 4) (1 / 10000)
     = (one_orbital, [warning_message], Inr ([[1]], [[0]]))"
  unfolding scf_cycle_def
  by (rule scf_iterations_exhausted [OF one_orbital_fock one_orbital_density])
     (simp_all add: one_orbital_fields shape_1x1 residual_at_1x1 all_less_2)

lemma scf_cycle_frame_aux:
  "fst (scf_cycle ff eigh s n m tol) = s \<or>
   fst (scf_cycle ff eigh s n m tol) = s\<lparr>converged := True\<rparr> \<and>
   (\<exists>p. snd (snd (scf_cycle ff eigh s n m tol)) = Inr p)"
  using scf_iterations_frame [of ff eigh s m tol "nat n" "density_matrix s" None]
  unfolding scf_cycle_def by (metis fst_conv)

section \<open>The reference Fock build\<close>

lemma map2_map_map: "map2 f (map g xs) (map h xs) = map (\<lambda>x. f (g x) (h x)) xs"
  by (induction xs) simp_all

lemma elementwise_tabulate:
  "elementwise f (map (\<lambda>p. map (\<lambda>q. a p q) [0..<m]) [0..<n]) (map (\<lambda>p. map (\<lambda>q. b p q) [0..<m]) [0..<n])
   = map (\<lambda>p. map (\<lambda>q. f (a p q) (b p q)) [0..<m]) [0..<n]"
  by (simp add: elementwise_def map2_map_map)

lemma scalar_mul_tabulate:
  "scalar_mul c (map (\<lambda>p. map (\<lambda>q. a p q) [0..<m]) [0..<n])
   = map (\<lambda>p. map (\<lambda>q. c * a p q) [0..<m]) [0..<n]"
  by (simp add: scalar_mul_def comp_def)

lemma shape_tabulate:
  "shape (map (\<lambda>p. map (\<lambda>q. a p q) [0..<m]) [0..<n]) = (n, if n = 0 then 0 else m)"
  by (cases n) (simp_all add: shape_def upt_conv_Cons del: upt_Suc)

lemma rectangular_tabulate:
  assumes "rectangular A" and "shape A = (n, m)"
  shows "A = map (\<lambda>p. map (\<lambda>q. A ! p ! q) [0..<m]) [0..<n]"
proof (rule nth_equalityI)
  show "length A = length (map (\<lambda>p. map (\<lambda>q. A ! p ! q) [0..<m]) [0..<n])"
    using assms(2) by (simp add: shape_def)
next
  fix i assume i: "i < length A"
  then have "length (A ! i) = m"
    using assms by (simp add: rectangular_def list_all_length)
  then have "A ! i = map (\<lambda>q. A ! i ! q) [0..<m]"
    using map_nth [of "A ! i"] by metis
  with i assms(2) show "A ! i = map (\<lambda>p. map (\<lambda>q. A ! p ! q) [0..<m]) [0..<n] ! i"
    by (simp add: shape_def)
qed

lemma elementwise_rectangular:
  assumes "rectangular A" and "shape A = (n, m)"
  shows "elementwise f A (map (\<lambda>p. map (\<lambda>q. b p q) [0..<m]) [0..<n])
     = map (\<lambda>p. map (\<lambda>q. f (A ! p ! q) (b p q)) [0..<m]) [0..<n]"
proof -
  have "elementwise f A (map (\<lambda>p. map (\<lambda>q. b p q) [0..<m]) [0..<n])
      = elementwise f (map (\<lambda>p. map (\<lambda>q. A ! p ! q) [0..<m]) [0..<n])
          (map (\<lambda>p. map (\<lambda>q. b p q) [0..<m]) [0..<n])"
    using rectangular_tabulate [OF assms]
    by (rule arg_cong [where f = "\<lambda>X. elementwise f X (map (\<lambda>p. map (\<lambda>q. b p q) [0..<m]) [0..<n])"])
  then show ?thesis by (simp only: elementwise_tabulate)
qed

lemma calculate_fock_matrix_fields:
  assumes "shape3 (chi_tensor s) = (n, n, a)"
    and "shape (interaction_matrix s) = (a, a)"
    and "shape (density_matrix s) = (n, n)"
    and "shape (hamiltonian_matrix s) = (n, n)"
    and "rectangular (hamiltonian_matrix s)"
  shows "calculate_fock_matrix s H M D chi =
     Inr (map (\<lambda>p. map (\<lambda>q. hamiltonian_matrix s ! p ! q
            + 2 * coulomb (chi_tensor s) (interaction_matrix s) (density_matrix s) p q
            - exchange (chi_tensor s) (interaction_matrix s) (density_matrix s) p q) [0..<n]) [0..<n])"
proof -
  have lm: "length (interaction_matrix s) = a" and ld: "length (density_matrix s) = n"
    using assms(2,3) by (simp_all add: shape_def)
  have J: "einsum_pqt_rsu_tu_rs (chi_tensor s) (chi_tensor s) (interaction_matrix s) (density_matrix s)
      = Inr (map (\<lambda>p. map (\<lambda>q. coulomb (chi_tensor s) (interaction_matrix s) (density_matrix s) p q) [0..<n]) [0..<n])"
    using assms(1,2,3) by (simp add: einsum_pqt_rsu_tu_rs_def coulomb_def lm ld)
  have X: "einsum_rqt_psu_tu_rs (chi_tensor s) (chi_tensor s) (interaction_matrix s) (density_matrix s)
      = Inr (map (\<lambda>p. map (\<lambda>q. exchange (chi_tensor s) (interaction_matrix s) (density_matrix s) p q) [0..<n]) [0..<n])"
    using assms(1,2,3) by (simp add: einsum_rqt_psu_tu_rs_def exchange_def lm ld)
  have sh: "shape (hamiltonian_matrix s) = shape (map (\<lambda>p. map (\<lambda>q. b p q) [0..<n]) [0..<n])" for b :: "nat \<Rightarrow> nat \<Rightarrow> real"
    using assms(4) by (simp add: shape_tabulate)
  have add: "nd_add (hamiltonian_matrix s)
       (scalar_mul 2 (map (\<lambda>p. map (\<lambda>q. coulomb (chi_tensor s) (interaction_matrix s) (density_matrix s) p q) [0..<n]) [0..<n]))
     = Inr (map (\<lambda>p. map (\<lambda>q. hamiltonian_matrix s ! p ! q
            + 2 * coulomb (chi_tensor s) (interaction_matrix s) (density_matrix s) p q) [0..<n]) [0..<n])"
    unfolding scalar_mul_tabulate nd_add_def using sh
    by (simp add: elementwise_rectangular [OF assms(5,4)])
  show ?thesis
    unfolding calculate_fock_matrix_def J X
    by (simp add: add nd_sub_def shape_tabulate elementwise_tabulate)
qed

section \<open>The density matrix\<close>

lemma dot_commute: "dot u v = dot v u"
proof -
  have "map (\<lambda>(x, y). x * y) (zip u v) = map (\<lambda>(x, y). x * y) (zip v u)"
    by (induction u v rule: list_induct2') (simp_all add: mult.commute)
  then show ?thesis by (simp add: dot_def)
qed

lemma dot_sum: "dot u v = (\<Sum>c<min (length u) (length v). u ! c * v ! c)"
proof -
  have "dot u v = (\<Sum>c = 0..<length (zip u v). map (\<lambda>(x, y). x * y) (zip u v) ! c)"
    unfolding dot_def by (simp add: sum_list_sum_nth)
  also have "\<dots> = (\<Sum>c = 0..<min (length u) (length v). u ! c * v ! c)"
    by (rule sum.cong) simp_all
  finally show ?thesis by (simp add: atLeast0LessThan)
qed

lemma matmul_T_nth:
  "i < length A \<Longrightarrow> j < length B \<Longrightarrow> matmul_T A B ! i ! j = dot (A ! i) (B ! j)"
  by (simp add: matmul_T_def)

lemma matmul_T_symmetric:
  "i < length A \<Longrightarrow> j < length A \<Longrightarrow> matmul_T A A ! i ! j = matmul_T A A ! j ! i"
  by (simp add: matmul_T_nth dot_commute)

lemma rectangular_row:
  "rectangular V \<Longrightarrow> shape V = (n, m) \<Longrightarrow> i < n \<Longrightarrow> length (V ! i) = m"
  by (simp add: rectangular_def list_all_length shape_def)

lemma occupied_entry:
  assumes "rectangular V" and "shape V = (n, n)" and "m \<le> n" and "i < n" and "j < n"
  shows "matmul_T (map (take m) V) (map (take m) V) ! i ! j = (\<Sum>c<m. V ! i ! c * V ! j ! c)"
proof -
  have n: "length V = n" using assms(2) by (simp add: shape_def)
  have li: "length (V ! i) = n" and lj: "length (V ! j) = n"
    using assms by (simp_all add: rectangular_row)
  have "matmul_T (map (take m) V) (map (take m) V) ! i ! j = dot (take m (V ! i)) (take m (V ! j))"
    using assms(4,5) n by (simp add: matmul_T_nth)
  also have "\<dots> = (\<Sum>c<m. take m (V ! i) ! c * take m (V ! j) ! c)"
    using assms(3) li lj by (simp add: dot_sum min_absorb2)
  also have "\<dots> = (\<Sum>c<m. V ! i ! c * V ! j ! c)"
    by (rule sum.cong) simp_all
  finally show ?thesis .
qed

lemma occupied_trace:
  assumes "rectangular V" and "shape V = (n, n)" and "m \<le> n"
    and unit: "\<forall>c<m. (\<Sum>i<n. V ! i ! c * V ! i ! c) = 1"
  shows "trace (matmul_T (map (take m) V) (map (take m) V)) = real m"
proof -
  have n: "length V = n" using assms(2) by (simp add: shape_def)
  have "trace (matmul_T (map (take m) V) (map (take m) V))
      = (\<Sum>i<n. matmul_T (map (take m) V) (map (take m) V) ! i ! i)"
    by (simp add: trace_def matmul_T_def n interv_sum_list_conv_sum_set_nat atLeast0LessThan)
  also have "\<dots> = (\<Sum>i<n. \<Sum>c<m. V ! i ! c * V ! i ! c)"
    by (rule sum.cong) (simp_all add: occupied_entry [OF assms(1,2,3)])
  also have "\<dots> = (\<Sum>c<m. \<Sum>i<n. V ! i ! c * V ! i ! c)"
    by (rule sum.swap)
  also have "\<dots> = (\<Sum>c<m. 1)"
    by (rule sum.cong) (simp_all add: unit)
  also have "\<dots> = real m" by simp
  finally show ?thesis .
qed

lemma eigh_diagonal_2x2: "a \<le> b \<Longrightarrow> eigh_diagonal [[a, 0], [0, b]] = Inr ([a, b], [[1, 0], [0, 1]])"
  by (simp add: eigh_diagonal_def Let_def eval_nat_numeral)

section \<open>The energy and the kernel\<close>

lemma elementwise_nth:
  "p < length A \<Longrightarrow> p < length B \<Longrightarrow> q < length (A ! p) \<Longrightarrow> q < length (B ! p) \<Longrightarrow>
   elementwise f A B ! p ! q = f (A ! p ! q) (B ! p ! q)"
  by (simp add: elementwise_def)

lemma calculate_energy_scf_sum:
  assumes "rectangular H" and "rectangular F"
    and "shape H = (n, m)" and "shape F = (n, m)" and "shape D = (n, m)"
  shows "calculate_energy_scf H F D = Inr (\<Sum>p<n. \<Sum>q<m. (H ! p ! q + F ! p ! q) * D ! p ! q)"
proof -
  have lH: "length H = n" and lF: "length F = n"
    using assms(3,4) by (simp_all add: shape_def)
  have sh: "shape (elementwise (+) H F) = (n, m)"
    using assms(3,4) by (simp add: shape_elementwise)
  have "calculate_energy_scf H F D
      = Inr (\<Sum>p\<leftarrow>[0..<n]. \<Sum>q\<leftarrow>[0..<m]. elementwise (+) H F ! p ! q * D ! p ! q)"
    using assms(3,4,5) sh by (simp add: calculate_energy_scf_def nd_add_def einsum_pq_pq_def)
  also have "(\<Sum>p\<leftarrow>[0..<n]. \<Sum>q\<leftarrow>[0..<m]. elementwise (+) H F ! p ! q * D ! p ! q)
      = (\<Sum>p<n. \<Sum>q<m. elementwise (+) H F ! p ! q * D ! p ! q)"
    by (simp add: interv_sum_list_conv_sum_set_nat atLeast0LessThan)
  also have "\<dots> = (\<Sum>p<n. \<Sum>q<m. (H ! p ! q + F ! p ! q) * D ! p ! q)"
  proof (intro sum.cong refl)
    fix p q assume "p \<in> {..<n}" and "q \<in> {..<m}"
    then have p: "p < n" and q: "q < m" by simp_all
    have "length (H ! p) = m" and "length (F ! p) = m"
      using assms p by (simp_all add: rectangular_row)
    with p q lH lF show "elementwise (+) H F ! p ! q * D ! p ! q = (H ! p ! q + F ! p ! q) * D ! p ! q"
      by (simp add: elementwise_nth)
  qed
  finally show ?thesis .
qed

lemma initialize_fields:
  "initialize ff eigh s = (s1, r) \<Longrightarrow>
   hamiltonian_matrix s1 = hamiltonian_matrix s \<and> energy_ion s1 = energy_ion s"
  by (auto simp: initialize_def Let_def split: sum.splits)

lemma scf_cycle_fields:
  "scf_cycle ff eigh s n mx tol = (s2, out, r) \<Longrightarrow>
   hamiltonian_matrix s2 = hamiltonian_matrix s \<and> energy_ion s2 = energy_ion s"
  using scf_cycle_frame_aux [of ff eigh s n mx tol] by auto

lemma one_orbital_initialize:
  "initialize (fock_fast_model [[[1]]]) eigh_diagonal one_orbital
     = (one_orbital\<lparr>fock_matrix := Some [[0]], density_matrix := [[1]]\<rparr>, Inr ())"
  by (simp add: initialize_def one_orbital_fock Let_def calculate_density_matrix_def num_occ_def
      eigh_diagonal_1x1 slice_to_def matmul_T_def dot_def)
     (simp add: one_orbital_def init_def)

lemma one_orbital_cycle:
  "scf_cycle (fock_fast_model [[[1]]]) eigh_diagonal
     (one_orbital\<lparr>fock_matrix := Some [[0]], density_matrix := [[1]]\<rparr>) 100 (1 / 4) (1 / 10000)
   = (one_orbital\<lparr>fock_matrix := Some [[0]], density_matrix := [[1]], converged := True\<rparr>, [],
      Inr ([[1]], [[1]]))"
proof -
  let ?s = "one_orbital\<lparr>fock_matrix := Some [[0]], density_matrix := [[1]]\<rparr>"
  have F: "fast_fock_matrix (fock_fast_model [[[1]]]) (hamiltonian_matrix ?s)
      (interaction_matrix ?s) (density_matrix ?s) = Inr [[1]]"
    by (simp add: fast_fock_matrix_def one_orbital_fields fock_fast_model_1x1)
  have D: "calculate_density_matrix eigh_diagonal ?s [[1]] = Inr [[1]]"
    by (simp add: calculate_density_matrix_def one_orbital_def init_def num_occ_def
        eigh_diagonal_1x1 slice_to_def matmul_T_def dot_def)
  have "scf_cycle (fock_fast_model [[[1]]]) eigh_diagonal ?s 100 (1 / 4) (1 / 10000)
      = (?s\<lparr>converged := True\<rparr>, [], Inr ([[1]], [[1]]))"
    unfolding scf_cycle_def
    by (rule scf_iterations_converges_at [OF F D, where i = 0])
       (simp_all add: shape_1x1 residual_at_1x1)
  then show ?thesis by simp
qed

lemma one_orbital_residual:
  "residual_at (1 / 4) [[1]] (density_matrix one_orbital) j = (3 / 4) ^ j"
  by (simp add: one_orbital_fields residual_at_1x1)

lemma take_rows_min:
  assumes "rectangular V" and "shape V = (n, n)"
  shows "map (take m) V = map (take (min m n)) V"
proof (rule map_cong [OF refl])
  fix r assume "r \<in> set V"
  then have "length r = n"
    using assms by (simp add: rectangular_def list_all_iff)
  then show "take m r = take (min m n) r"
    by (cases "m \<le> n") (simp_all add: min_def)
qed

lemma occupied_nth:
  assumes "rectangular V" and "shape V = (n, n)" and "c < m" and "c < n" and "i < n"
  shows "map (take m) V ! i ! c = V ! i ! c"
proof -
  have "length V = n" using assms(2) by (simp add: shape_def)
  with assms(3,5) show ?thesis by simp
qed

section \<open>Claims\<close>

text \<open>
  C9. \<^verbatim>\<open>scf_cycle\<close> returns a pair of matrices only when \<^verbatim>\<open>max_scf_iterations\<close> is at
  least 1. With \<^verbatim>\<open>max_scf_iterations\<close> = 0 (or less) the loop body never runs, the warning
  is printed, and the return statement reads the unbound locals: the call raises
  UnboundLocalError. With at least one iteration, and the Fock build and the density build
  succeeding on matrices of one shape, the call returns a pair.
\<close>

theorem scf_cycle_needs_one_iteration:
  "(max_scf_iterations \<le> 0 \<longrightarrow>
      scf_cycle ff eigh s max_scf_iterations m tol = (s, [warning_message], Inl UnboundLocalError)) \<and>
   ((\<exists>D F. snd (snd (scf_cycle ff eigh s max_scf_iterations m tol)) = Inr (D, F)) \<longrightarrow>
      1 \<le> max_scf_iterations) \<and>
   (1 \<le> max_scf_iterations \<and>
    fast_fock_matrix ff (hamiltonian_matrix s) (interaction_matrix s) (density_matrix s) = Inr F \<and>
    calculate_density_matrix eigh s F = Inr D \<and> shape (density_matrix s) = shape D \<longrightarrow>
      snd (snd (scf_cycle ff eigh s max_scf_iterations m tol)) = Inr (D, F))"
proof (intro conjI impI)
  assume "max_scf_iterations \<le> 0"
  then show "scf_cycle ff eigh s max_scf_iterations m tol = (s, [warning_message], Inl UnboundLocalError)"
    by (simp add: scf_cycle_def)
next
  assume "\<exists>D F. snd (snd (scf_cycle ff eigh s max_scf_iterations m tol)) = Inr (D, F)"
  then show "1 \<le> max_scf_iterations"
    by (cases "max_scf_iterations \<le> 0") (auto simp: scf_cycle_def)
next
  assume a: "1 \<le> max_scf_iterations \<and>
    fast_fock_matrix ff (hamiltonian_matrix s) (interaction_matrix s) (density_matrix s) = Inr F \<and>
    calculate_density_matrix eigh s F = Inr D \<and> shape (density_matrix s) = shape D"
  then have "nat max_scf_iterations = 0 \<longrightarrow> None = Some (D, F)" by simp
  with a show "snd (snd (scf_cycle ff eigh s max_scf_iterations m tol)) = Inr (D, F)"
    unfolding scf_cycle_def by (intro scf_iterations_returns) simp_all
qed

theorem scf_cycle_needs_one_iteration_witness:
  "scf_cycle (fock_fast_model [[[1]]]) eigh_diagonal one_orbital 0 (1 / 4) (1 / 10000)
     = (one_orbital, [warning_message], Inl UnboundLocalError) \<and>
   snd (snd (scf_cycle (fock_fast_model [[[1]]]) eigh_diagonal one_orbital 1 (1 / 4) (1 / 10000)))
     = Inr ([[1]], [[0]])"
  using scf_cycle_needs_one_iteration [where max_scf_iterations = 0 and ff = "fock_fast_model [[[1]]]"
      and eigh = eigh_diagonal and s = one_orbital and m = "1 / 4" and tol = "1 / 10000"]
    scf_cycle_needs_one_iteration [where max_scf_iterations = 1 and ff = "fock_fast_model [[[1]]]"
      and eigh = eigh_diagonal and s = one_orbital and m = "1 / 4" and tol = "1 / 10000"
      and F = "[[0]]" and D = "[[1]]"]
    one_orbital_fock one_orbital_density [of 0]
  by (simp add: one_orbital_fields shape_1x1)



text \<open>
  C4. With the Fock matrix F and the density D of the iterations, let iteration \<open>i\<close>
  (from 0) be the first whose residual, the Frobenius norm of the old density minus D, is
  strictly below the tolerance: the residual of every earlier iteration is at least the
  tolerance, a residual equal to the tolerance included. Then a call that allows more than
  \<open>i\<close> iterations sets \<^verbatim>\<open>converged\<close> to True and returns (D, F) at that iteration,
  whatever the number of iterations left: D is the density as computed, not mixed, and
  nothing is printed. A call that allows at least one and at most \<open>i\<close> iterations has not
  returned in any of them: it ends with the warning and the flag untouched. So the flag
  after a call is set exactly when iteration \<open>i\<close> is reached.
\<close>

theorem scf_cycle_converged_returns_immediately:
  assumes "fast_fock_matrix ff (hamiltonian_matrix s) (interaction_matrix s) (density_matrix s) = Inr F"
    and "calculate_density_matrix eigh s F = Inr D"
    and "shape (density_matrix s) = shape D"
    and "\<forall>j<i. tol \<le> residual_at mixing_fraction D (density_matrix s) j"
    and "residual_at mixing_fraction D (density_matrix s) i < tol"
  shows "(int i < max_scf_iterations \<longrightarrow>
        scf_cycle ff eigh s max_scf_iterations mixing_fraction tol = (s\<lparr>converged := True\<rparr>, [], Inr (D, F))) \<and>
     (1 \<le> n \<and> n \<le> int i \<longrightarrow>
        scf_cycle ff eigh s n mixing_fraction tol = (s, [warning_message], Inr (D, F))) \<and>
     converged (fst (scf_cycle ff eigh s n mixing_fraction tol)) = (converged s \<or> int i < n)"
proof -
  have early: "\<forall>j<i. \<not> residual_at mixing_fraction D (density_matrix s) j < tol"
    using assms(4) by (simp add: not_less)
  have reached: "scf_cycle ff eigh s k mixing_fraction tol = (s\<lparr>converged := True\<rparr>, [], Inr (D, F))"
    if "int i < k" for k
  proof -
    have "i < nat k" using that by simp
    then show ?thesis
      unfolding scf_cycle_def using assms(3,5) early
      by (intro scf_iterations_converges_at [OF assms(1,2)]) simp_all
  qed
  have before: "scf_cycle ff eigh s k mixing_fraction tol = (s, [warning_message], Inr (D, F))"
    if "1 \<le> k" and "k \<le> int i" for k
  proof -
    have "nat k \<le> i" and "nat k = 0 \<longrightarrow> None = Some (D, F)" using that by simp_all
    then show ?thesis
      unfolding scf_cycle_def using assms(3) early
      by (intro scf_iterations_exhausted [OF assms(1,2)]) simp_all
  qed
  have none: "scf_cycle ff eigh s k mixing_fraction tol = (s, [warning_message], Inl UnboundLocalError)"
    if "k \<le> 0" for k
    using that by (simp add: scf_cycle_def)
  have flag: "converged (fst (scf_cycle ff eigh s n mixing_fraction tol)) = (converged s \<or> int i < n)"
  proof (cases "int i < n")
    case True
    then show ?thesis by (simp add: reached)
  next
    case False
    then show ?thesis
      by (cases "1 \<le> n") (simp_all add: before none)
  qed
  from reached before flag show ?thesis by blast
qed

theorem scf_cycle_converged_returns_immediately_witness:
  "scf_cycle (fock_fast_model [[[1]]]) eigh_diagonal one_orbital 100 (1 / 4) (3 / 4)
     = (one_orbital\<lparr>converged := True\<rparr>, [], Inr ([[1]], [[0]])) \<and>
   scf_cycle (fock_fast_model [[[1]]]) eigh_diagonal one_orbital 3 (1 / 4) (3 / 4)
     = (one_orbital\<lparr>converged := True\<rparr>, [], Inr ([[1]], [[0]])) \<and>
   scf_cycle (fock_fast_model [[[1]]]) eigh_diagonal one_orbital 2 (1 / 4) (3 / 4)
     = (one_orbital, [warning_message], Inr ([[1]], [[0]])) \<and>
   residual_at (1 / 4) [[1]] (density_matrix one_orbital) 1 = 3 / 4 \<and>
   converged (fst (scf_cycle (fock_fast_model [[[1]]]) eigh_diagonal one_orbital 2 (1 / 4) (3 / 4))) = False"
proof -
  have sh: "shape (density_matrix one_orbital) = shape [[1]]"
    by (simp add: one_orbital_fields shape_1x1)
  have early: "\<forall>j<2. 3 / 4 \<le> residual_at (1 / 4) [[1]] (density_matrix one_orbital) j"
    by (simp add: one_orbital_residual all_less_2)
  have at: "residual_at (1 / 4) [[1]] (density_matrix one_orbital) 2 < 3 / 4"
    by (simp add: one_orbital_residual power2_eq_square)
  note run = scf_cycle_converged_returns_immediately
    [OF one_orbital_fock one_orbital_density [of 0] sh early at]
  have boundary: "residual_at (1 / 4) [[1]] (density_matrix one_orbital) 1 = 3 / 4"
    by (simp add: one_orbital_residual)
  show ?thesis
    using run [of 100 2] run [of 3 2] boundary
    by (simp add: one_orbital_fields(4))
qed

text \<open>
  C5, as stated, for a run of no iterations: \<^verbatim>\<open>scf_cycle\<close> with \<^verbatim>\<open>max_scf_iterations\<close> = 0
  completes all of its iterations, no residual is below the tolerance, the warning is
  printed, and the call raises UnboundLocalError instead of returning a pair.
\<close>

theorem scf_cycle_zero_iterations_raises:
  "scf_cycle (fock_fast_model [[[1]]]) eigh_diagonal one_orbital 0 (1 / 4) (1 / 10000)
     = (one_orbital, [warning_message], Inl UnboundLocalError)"
  by (simp add: scf_cycle_def)

text \<open>
  C5, amended. When \<^verbatim>\<open>max_scf_iterations\<close> is at least 1 and the residual of no iteration
  is below the tolerance, \<^verbatim>\<open>scf_cycle\<close> prints the warning and returns the density and the
  Fock matrix of its last iteration; it raises nothing, and the solver, with its flag
  \<^verbatim>\<open>converged\<close>, is as before the call.
\<close>

theorem scf_cycle_not_converged:
  assumes "fast_fock_matrix ff (hamiltonian_matrix s) (interaction_matrix s) (density_matrix s) = Inr F"
    and "calculate_density_matrix eigh s F = Inr D"
    and "shape (density_matrix s) = shape D"
    and "1 \<le> max_scf_iterations"
    and "\<forall>j<nat max_scf_iterations. \<not> residual_at mixing_fraction D (density_matrix s) j < tol"
  shows "scf_cycle ff eigh s max_scf_iterations mixing_fraction tol = (s, [warning_message], Inr (D, F)) \<and>
    converged (fst (scf_cycle ff eigh s max_scf_iterations mixing_fraction tol)) = converged s"
proof -
  have "nat max_scf_iterations = 0 \<longrightarrow> None = Some (D, F)" using assms(4) by simp
  then have "scf_cycle ff eigh s max_scf_iterations mixing_fraction tol = (s, [warning_message], Inr (D, F))"
    unfolding scf_cycle_def using assms(3,5)
    by (intro scf_iterations_exhausted [OF assms(1,2)]) simp_all
  then show ?thesis by simp
qed

theorem scf_cycle_not_converged_witness:
  "scf_cycle (fock_fast_model [[[1]]]) eigh_diagonal one_orbital 2 (1 / 4) (1 / 10000)
     = (one_orbital, [warning_message], Inr ([[1]], [[0]])) \<and>
   converged (fst (scf_cycle (fock_fast_model [[[1]]]) eigh_diagonal one_orbital 2 (1 / 4) (1 / 10000)))
     = False"
  using scf_cycle_not_converged [OF one_orbital_fock one_orbital_density [of 0],
      where max_scf_iterations = 2 and mixing_fraction = "1 / 4" and tol = "1 / 10000"]
  by (simp add: one_orbital_fields shape_1x1 residual_at_1x1 all_less_2)

text \<open>
  C1, at a run of two iterations that does not converge. The system is \<open>one_orbital\<close>,
  with the Fock builder of the reference formula, which here is F = H + D. The first
  iteration builds F = [[0]] from the field \<^verbatim>\<open>density_matrix\<close> = [[0]] and computes the
  density [[1]]. The claim has the second iteration build its Fock matrix from that
  density, which gives [[1]]; the code reads the field again, which \<^verbatim>\<open>scf_cycle\<close> never
  assigns, and the Fock matrix of the second iteration, returned by the call, is [[0]].
\<close>

theorem scf_cycle_second_fock_from_field:
  "scf_cycle (fock_fast_model [[[1]]]) eigh_diagonal one_orbital 2 (1 / 4) (1 / 10000)
     = (one_orbital, [warning_message], Inr ([[1]], [[0]])) \<and>
   fast_fock_matrix (fock_fast_model [[[1]]]) (hamiltonian_matrix one_orbital)
     (interaction_matrix one_orbital) (density_matrix one_orbital) = Inr [[0]] \<and>
   calculate_density_matrix eigh_diagonal one_orbital [[0]] = Inr [[1]] \<and>
   fast_fock_matrix (fock_fast_model [[[1]]]) (hamiltonian_matrix one_orbital)
     (interaction_matrix one_orbital) [[1]] = Inr [[1]]"
  by (simp add: one_orbital_two_iterations one_orbital_fock one_orbital_density)
     (simp add: fast_fock_matrix_def one_orbital_fields fock_fast_model_1x1)

text \<open>
  C3. \<^verbatim>\<open>calculate_density_matrix\<close> computes the number of occupied orbitals as
  ((Q // 2) * n) // K, with floor division and from left to right, where Q is the ionic
  charge, n the number of rows of the Fock matrix and K (not zero) the orbitals per atom,
  and builds the density from that many columns of the eigenvector matrix. For Q = 4,
  K = 2, n = 4 the count is 4. For Q = 3, K = 2, n = 4 it is 2, while the reordering
  (Q // (2 * K)) * n gives 0.
\<close>

theorem num_occ_evaluation_order:
  assumes "orbitals_per_atom s \<noteq> 0" and "eigh F = Inr (w, V)"
  shows "num_occ (ionic_charge s) (int (length F)) (orbitals_per_atom s)
       = Inr (((ionic_charge s div 2) * int (length F)) div orbitals_per_atom s) \<and>
     calculate_density_matrix eigh s F
       = Inr (matmul_T
           (map (slice_to (((ionic_charge s div 2) * int (length F)) div orbitals_per_atom s)) V)
           (map (slice_to (((ionic_charge s div 2) * int (length F)) div orbitals_per_atom s)) V)) \<and>
     num_occ 4 4 2 = Inr 4 \<and>
     num_occ 3 4 2 = Inr 2 \<and>
     num_occ 3 4 2 \<noteq> Inr ((3 div (2 * 2)) * 4)"
  using assms by (simp add: num_occ_def calculate_density_matrix_def Let_def)

theorem num_occ_evaluation_order_witness:
  "num_occ 2 1 1 = Inr 1 \<and>
   calculate_density_matrix eigh_diagonal one_orbital [[0]] = Inr [[1]]"
  using num_occ_evaluation_order [of one_orbital eigh_diagonal "[[0]]" "[0]" "[[1]]"]
  by (simp add: eigh_diagonal_1x1 one_orbital_def init_def slice_to_def matmul_T_def dot_def)

text \<open>
  C8. The result of \<^verbatim>\<open>calculate_fock_matrix\<close> does not depend on the four arrays it is
  called with: any two calls on one solver return the same. On a solver whose fields have
  the shapes of a system (H and D n by n, M a by a, chi n by n by a) the result is
  H + 2 Coulomb - Exchange, entry by entry, of the fields the constructor stored.
\<close>

theorem calculate_fock_matrix_ignores_arguments:
  "calculate_fock_matrix s H1 M1 D1 chi1 = calculate_fock_matrix s H2 M2 D2 chi2 \<and>
   (shape3 (chi_tensor s) = (n, n, a) \<and> shape (interaction_matrix s) = (a, a) \<and>
    shape (density_matrix s) = (n, n) \<and> shape (hamiltonian_matrix s) = (n, n) \<and>
    rectangular (hamiltonian_matrix s) \<longrightarrow>
    calculate_fock_matrix s H1 M1 D1 chi1 =
      Inr (map (\<lambda>p. map (\<lambda>q. hamiltonian_matrix s ! p ! q
             + 2 * coulomb (chi_tensor s) (interaction_matrix s) (density_matrix s) p q
             - exchange (chi_tensor s) (interaction_matrix s) (density_matrix s) p q) [0..<n]) [0..<n]))"
proof (intro conjI impI)
  show "calculate_fock_matrix s H1 M1 D1 chi1 = calculate_fock_matrix s H2 M2 D2 chi2"
    by (simp add: calculate_fock_matrix_def)
qed (simp add: calculate_fock_matrix_fields)

theorem calculate_fock_matrix_ignores_arguments_witness:
  "calculate_fock_matrix (init [[1]] [[1]] [[1]] [[[1]]] 0 2 1) [[5]] [[7]] [[9]] [[[3]]] = Inr [[2]]"
  using calculate_fock_matrix_ignores_arguments [where s = "init [[1]] [[1]] [[1]] [[[1]]] 0 2 1"
      and n = 1 and a = 1 and ?H1.0 = "[[5]]" and ?M1.0 = "[[7]]" and ?D1.0 = "[[9]]" and ?chi1.0 = "[[[3]]]"]
  by (simp add: init_def shape3_def shape_def rectangular_def coulomb_def exchange_def)

text \<open>
  C2, at arguments that differ from the fields of the solver. The solver is \<open>one_orbital\<close>
  (H = [[0]], D = [[0]]); both paths are called with H = [[1]], M = [[1]], D = [[1]] and
  chi = [[[1]]]. The reference path reads the fields and returns [[0]]; the accelerated
  path passes its arguments on, and a collaborator that follows the reference formula
  returns 1 + 2 - 1 = [[2]] for them.
\<close>

theorem fock_paths_differ_on_arguments:
  "calculate_fock_matrix one_orbital [[1]] [[1]] [[1]] [[[1]]] = Inr [[0]] \<and>
   fast_fock_matrix (fock_fast_model [[[1]]]) [[1]] [[1]] [[1]] = Inr [[2]]"
  by (simp add: calculate_fock_matrix_def one_orbital_def init_def fast_fock_matrix_def
      fock_fast_model_1x1 einsum_pqt_rsu_tu_rs_def einsum_rqt_psu_tu_rs_def
      shape3_def shape_def nd_add_def nd_sub_def scalar_mul_def elementwise_def)

text \<open>
  C6, as stated, for an occupation count above the dimension: with Q = 4 and K = 1 the
  count for the one by one Fock matrix [[1]] is 2, the slice keeps the one column there
  is, and the density [[1]] has trace 1, not 2.
\<close>

theorem density_trace_overfull:
  "calculate_density_matrix eigh_diagonal (init [[1]] [[0]] [[0]] [[[0]]] 0 4 1) [[1]] = Inr [[1]] \<and>
   num_occ 4 1 1 = Inr 2 \<and> trace [[1]] = 1"
  by (simp add: calculate_density_matrix_def init_def num_occ_def eigh_diagonal_1x1
      slice_to_def matmul_T_def dot_def trace_def)

text \<open>
  C6, amended. Let \<open>k\<close> be the occupation count and (w, V) what the eigen-decomposition
  returns for F. \<^verbatim>\<open>calculate_density_matrix\<close> returns D = C @ C.T for C the slice
  \<^verbatim>\<open>V[:, :k]\<close>, and D is symmetric, for every input. Let V be n by n and \<open>k\<close> not negative.
  When the first min(k, n) columns of V have norm one, D[i, j] is the sum of
  V[i, c] V[j, c] over c < min(k, n); the trace of D is \<open>k\<close> when \<open>k\<close> is at most n, and n
  when \<open>k\<close> is n or more. When \<open>k\<close> is at most n, w ascends and column c of V is an
  eigenvector of F for the eigenvalue w[c], the columns of C are eigenvectors of F for
  w[0], ..., w[k - 1], and these are the \<open>k\<close> lowest eigenvalues: none of them exceeds an
  eigenvalue that is left out. Floats are idealised as reals, so the trace is exact.
\<close>

theorem density_matrix_symmetric_trace:
  assumes "eigh F = Inr (w, V)"
    and "num_occ (ionic_charge s) (int (length F)) (orbitals_per_atom s) = Inr k"
    and C: "C = map (slice_to k) V"
    and D: "D = matmul_T C C"
  shows "calculate_density_matrix eigh s F = Inr D \<and>
    (\<forall>i<length V. \<forall>j<length V. D ! i ! j = D ! j ! i) \<and>
    (0 \<le> k \<and> rectangular V \<and> shape V = (length V, length V) \<and>
     (\<forall>c<min (nat k) (length V). (\<Sum>i<length V. V ! i ! c * V ! i ! c) = 1) \<longrightarrow>
       (\<forall>i<length V. \<forall>j<length V.
          D ! i ! j = (\<Sum>c<min (nat k) (length V). V ! i ! c * V ! j ! c)) \<and>
       (k \<le> int (length V) \<longrightarrow> trace D = real_of_int k) \<and>
       (int (length V) \<le> k \<longrightarrow> trace D = real (length V))) \<and>
    (0 \<le> k \<and> k \<le> int (length V) \<and> rectangular V \<and> shape V = (length V, length V) \<and>
     length w = length V \<and> sorted w \<and>
     (\<forall>c<length V. \<forall>i<length V. (\<Sum>j<length V. F ! i ! j * V ! j ! c) = w ! c * V ! i ! c) \<longrightarrow>
       (\<forall>c<nat k. \<forall>i<length V. (\<Sum>j<length V. F ! i ! j * C ! j ! c) = w ! c * C ! i ! c) \<and>
       (\<forall>c<nat k. \<forall>c'<length V. nat k \<le> c' \<longrightarrow> w ! c \<le> w ! c'))"
proof (intro conjI impI)
  show "calculate_density_matrix eigh s F = Inr D"
    using assms by (simp add: calculate_density_matrix_def Let_def)
next
  show "\<forall>i<length V. \<forall>j<length V. D ! i ! j = D ! j ! i"
    unfolding D C by (simp add: matmul_T_symmetric)
next
  assume a: "0 \<le> k \<and> rectangular V \<and> shape V = (length V, length V) \<and>
     (\<forall>c<min (nat k) (length V). (\<Sum>i<length V. V ! i ! c * V ! i ! c) = 1)"
  let ?m = "min (nat k) (length V)"
  from a have "0 \<le> k" and rect: "rectangular V" and sq: "shape V = (length V, length V)"
    and unit: "\<forall>c<?m. (\<Sum>i<length V. V ! i ! c * V ! i ! c) = 1"
    by blast+
  have "slice_to k = (take (nat k) :: real list \<Rightarrow> real list)"
    using \<open>0 \<le> k\<close> by (simp add: slice_to_def fun_eq_iff)
  then have "C = map (take (nat k)) V"
    unfolding C by (rule arg_cong [where f = "\<lambda>g. map g V"])
  also have "\<dots> = map (take ?m) V"
    by (rule take_rows_min [OF rect sq])
  finally have CV: "C = map (take ?m) V" .
  have m: "?m \<le> length V" by simp
  show "\<forall>i<length V. \<forall>j<length V. D ! i ! j = (\<Sum>c<?m. V ! i ! c * V ! j ! c)"
    unfolding D CV using occupied_entry [OF rect sq m] by blast
  have tr: "trace D = real ?m"
    unfolding D CV using rect sq m unit by (rule occupied_trace)
  show "trace D = real_of_int k" if "k \<le> int (length V)"
  proof -
    have "nat k \<le> length V" using that by arith
    then have "?m = nat k" by simp
    moreover have "real (nat k) = real_of_int k" using \<open>0 \<le> k\<close> by simp
    ultimately show ?thesis using tr by simp
  qed
  show "trace D = real (length V)" if "int (length V) \<le> k"
  proof -
    have "length V \<le> nat k" using that by arith
    then have "?m = length V" by simp
    then show ?thesis using tr by simp
  qed
next
  assume a: "0 \<le> k \<and> k \<le> int (length V) \<and> rectangular V \<and> shape V = (length V, length V) \<and>
     length w = length V \<and> sorted w \<and>
     (\<forall>c<length V. \<forall>i<length V. (\<Sum>j<length V. F ! i ! j * V ! j ! c) = w ! c * V ! i ! c)"
  then have "0 \<le> k" and kn: "nat k \<le> length V" and rect: "rectangular V"
    and sq: "shape V = (length V, length V)" and lw: "length w = length V" and "sorted w"
    and eig: "\<forall>c<length V. \<forall>i<length V. (\<Sum>j<length V. F ! i ! j * V ! j ! c) = w ! c * V ! i ! c"
    by auto
  have "slice_to k = (take (nat k) :: real list \<Rightarrow> real list)"
    using \<open>0 \<le> k\<close> by (simp add: slice_to_def fun_eq_iff)
  then have CV: "C = map (take (nat k)) V"
    unfolding C by (rule arg_cong [where f = "\<lambda>g. map g V"])
  show "\<forall>c<nat k. \<forall>i<length V. (\<Sum>j<length V. F ! i ! j * C ! j ! c) = w ! c * C ! i ! c"
  proof (intro allI impI)
    fix c i assume c: "c < nat k" and i: "i < length V"
    then have cn: "c < length V" using kn by simp
    have col: "C ! j ! c = V ! j ! c" if "j < length V" for j
      unfolding CV using occupied_nth [OF rect sq c cn that] .
    have "(\<Sum>j<length V. F ! i ! j * C ! j ! c) = (\<Sum>j<length V. F ! i ! j * V ! j ! c)"
      by (rule sum.cong) (simp_all add: col)
    also have "\<dots> = w ! c * V ! i ! c" using eig cn i by blast
    finally show "(\<Sum>j<length V. F ! i ! j * C ! j ! c) = w ! c * C ! i ! c"
      by (simp add: col i)
  qed
  show "\<forall>c<nat k. \<forall>c'<length V. nat k \<le> c' \<longrightarrow> w ! c \<le> w ! c'"
  proof (intro allI impI)
    fix c c' assume "c < nat k" and "c' < length V" and "nat k \<le> c'"
    then have "c \<le> c'" and "c' < length w" using lw by simp_all
    with \<open>sorted w\<close> show "w ! c \<le> w ! c'" by (rule sorted_nth_mono)
  qed
qed

theorem density_matrix_symmetric_trace_witness:
  "calculate_density_matrix eigh_diagonal
     (init [[-1, 0], [0, 1]] [[0]] [[1, 0], [0, 0]] [[[0], [0]], [[0], [0]]] 0 2 2)
     [[-1, 0], [0, 1]] = Inr [[1, 0], [0, 0]] \<and>
   trace [[1, 0], [0, 0]] = 1 \<and>
   (\<Sum>j<2. [[-1, 0], [0, 1]] ! 0 ! j * [[1], [0 :: real]] ! j ! 0) = [-1, 1] ! 0 * [[1], [0]] ! 0 ! 0 \<and>
   [-1, 1 :: real] ! 0 \<le> [-1, 1] ! 1 \<and>
   calculate_density_matrix eigh_diagonal
     (init [[-1, 0], [0, 1]] [[0]] [[1, 0], [0, 0]] [[[0], [0]], [[0], [0]]] 0 4 1)
     [[-1, 0], [0, 1]] = Inr [[1, 0], [0, 1]] \<and>
   trace [[1, 0], [0, 1]] = 2"
proof -
  let ?F = "[[-1, 0], [0, 1 :: real]]" and ?w = "[-1, 1 :: real]" and ?V = "[[1, 0], [0, 1 :: real]]"
  let ?half = "init ?F [[0]] [[1, 0], [0, 0]] [[[0], [0]], [[0], [0]]] 0 2 2"
  let ?over = "init ?F [[0]] [[1, 0], [0, 0]] [[[0], [0]], [[0], [0]]] 0 4 1"
  have eig: "eigh_diagonal ?F = Inr (?w, ?V)"
    by (simp add: eigh_diagonal_2x2)
  have k1: "num_occ (ionic_charge ?half) (int (length ?F)) (orbitals_per_atom ?half) = Inr 1"
    by (simp add: init_def num_occ_def)
  have k4: "num_occ (ionic_charge ?over) (int (length ?F)) (orbitals_per_atom ?over) = Inr 4"
    by (simp add: init_def num_occ_def)
  have C1: "map (slice_to 1) ?V = [[1], [0]]" and C4: "map (slice_to 4) ?V = ?V"
    by (simp_all add: slice_to_def)
  have D1: "matmul_T [[1], [0]] [[1], [0]] = [[1, 0], [0, 0]]"
    and D4: "matmul_T ?V ?V = [[1, 0], [0, 1]]"
    by (simp_all add: matmul_T_def dot_def)
  have rect: "rectangular ?V" and sq: "shape ?V = (length ?V, length ?V)"
    by (simp_all add: rectangular_def shape_def)
  have unit1: "\<forall>c<min (nat 1) (length ?V). (\<Sum>i<length ?V. ?V ! i ! c * ?V ! i ! c) = 1"
    by (simp add: All_less_Suc lessThan_Suc eval_nat_numeral)
  have unit4: "\<forall>c<min (nat 4) (length ?V). (\<Sum>i<length ?V. ?V ! i ! c * ?V ! i ! c) = 1"
    by (simp add: All_less_Suc lessThan_Suc eval_nat_numeral)
  have contract: "\<forall>c<length ?V. \<forall>i<length ?V. (\<Sum>j<length ?V. ?F ! i ! j * ?V ! j ! c) = ?w ! c * ?V ! i ! c"
    by (simp add: All_less_Suc lessThan_Suc eval_nat_numeral)
  note half = density_matrix_symmetric_trace [where eigh = eigh_diagonal and F = ?F and w = ?w and V = ?V and s = ?half and k = 1
      and C = "map (slice_to 1) ?V"
      and D = "matmul_T (map (slice_to 1) ?V) (map (slice_to 1) ?V)", OF eig k1 refl refl]
  note over = density_matrix_symmetric_trace [where eigh = eigh_diagonal and F = ?F and w = ?w and V = ?V and s = ?over and k = 4
      and C = "map (slice_to 4) ?V"
      and D = "matmul_T (map (slice_to 4) ?V) (map (slice_to 4) ?V)", OF eig k4 refl refl]
  have h1: "calculate_density_matrix eigh_diagonal ?half ?F = Inr [[1, 0], [0, 0]]"
    using half by (simp only: C1 D1)
  have h2: "trace (matmul_T (map (slice_to 1) ?V) (map (slice_to 1) ?V)) = real_of_int 1"
    using half rect sq unit1 by simp
  have h3: "\<forall>c<nat 1. \<forall>i<length ?V.
      (\<Sum>j<length ?V. ?F ! i ! j * map (slice_to 1) ?V ! j ! c) = ?w ! c * map (slice_to 1) ?V ! i ! c"
    using half rect sq contract by simp
  have h4: "\<forall>c<nat 1. \<forall>c'<length ?V. nat 1 \<le> c' \<longrightarrow> ?w ! c \<le> ?w ! c'"
    using half rect sq contract by simp
  have o1: "calculate_density_matrix eigh_diagonal ?over ?F = Inr [[1, 0], [0, 1]]"
    using over by (simp only: C4 D4)
  have o2: "trace (matmul_T (map (slice_to 4) ?V) (map (slice_to 4) ?V)) = real (length ?V)"
    using over rect sq unit4 by simp
  have h3': "(\<Sum>j<2. ?F ! 0 ! j * [[1], [0 :: real]] ! j ! 0) = ?w ! 0 * [[1], [0]] ! 0 ! 0"
    using h3 [rule_format, of 0 0] by (simp add: C1 lessThan_Suc eval_nat_numeral)
  have h4': "?w ! 0 \<le> ?w ! 1"
    using h4 [rule_format, of 0 1] by simp
  from h2 have h2': "trace [[1, 0], [0, 0]] = 1" unfolding C1 D1 by simp
  from o2 have o2': "trace [[1, 0], [0, 1]] = 2" unfolding C4 D4 by simp
  from h1 h2' h3' h4' o1 o2' show ?thesis by blast
qed

text \<open>
  C7. \<^verbatim>\<open>kernel\<close> calls \<^verbatim>\<open>initialize\<close>, then \<^verbatim>\<open>scf_cycle\<close> with its defaults on the solver
  that \<^verbatim>\<open>initialize\<close> left, and stores the returned density D and Fock matrix F in the
  solver. The electronic energy is the full contraction, the sum over p and q of
  (H + F)[p, q] D[p, q], of the final matrices; \<^verbatim>\<open>kernel\<close> stores it, stores and returns
  the total energy E_ion plus that energy. The matrices are ndarrays of one shape n by m.
\<close>

theorem kernel_total_energy:
  assumes "initialize ff eigh s = (s1, Inr ())"
    and "scf_cycle ff eigh s1 100 (1 / 4) (1 / 10000) = (s2, out, Inr (D, F))"
    and "rectangular (hamiltonian_matrix s)" and "rectangular F"
    and "shape (hamiltonian_matrix s) = (n, m)" and "shape F = (n, m)" and "shape D = (n, m)"
  shows "kernel ff eigh s =
    (s2\<lparr>density_matrix := D, fock_matrix := Some F,
        energy_scf := Some (\<Sum>p<n. \<Sum>q<m. (hamiltonian_matrix s ! p ! q + F ! p ! q) * D ! p ! q),
        total_energy := Some (energy_ion s
          + (\<Sum>p<n. \<Sum>q<m. (hamiltonian_matrix s ! p ! q + F ! p ! q) * D ! p ! q))\<rparr>,
     out,
     Inr (energy_ion s + (\<Sum>p<n. \<Sum>q<m. (hamiltonian_matrix s ! p ! q + F ! p ! q) * D ! p ! q)))"
proof -
  have f1: "hamiltonian_matrix s1 = hamiltonian_matrix s" "energy_ion s1 = energy_ion s"
    using initialize_fields [OF assms(1)] by simp_all
  have f2: "hamiltonian_matrix s2 = hamiltonian_matrix s" "energy_ion s2 = energy_ion s"
    using scf_cycle_fields [OF assms(2)] f1 by simp_all
  have E: "calculate_energy_scf (hamiltonian_matrix s) F D
      = Inr (\<Sum>p<n. \<Sum>q<m. (hamiltonian_matrix s ! p ! q + F ! p ! q) * D ! p ! q)"
    using assms(3-7) by (rule calculate_energy_scf_sum)
  show ?thesis
    by (simp add: kernel_def assms(1,2) Let_def f2 E)
qed

theorem kernel_total_energy_witness:
  "kernel (fock_fast_model [[[1]]]) eigh_diagonal one_orbital =
     (one_orbital\<lparr>fock_matrix := Some [[1]], density_matrix := [[1]], converged := True,
        energy_scf := Some 1, total_energy := Some 2\<rparr>, [], Inr 2)"
  using kernel_total_energy [OF one_orbital_initialize one_orbital_cycle, where n = 1 and m = 1]
  by (simp add: one_orbital_fields rectangular_def shape_1x1)
     (simp add: one_orbital_def init_def)

end
